theory Spec2Isabelle
  imports Main "HOL-Library.AList"
begin

section \<open>Python values used by the RBAC decorators\<close>

text \<open>
  The module under verification is \<^verbatim>\<open>framework/wazuh/rbac/decorators.py\<close>.
  Python strings are modelled as \<^typ>\<open>string\<close>; exceptions are values of the
  datatype \<open>error\<close> and a function that may raise returns \<open>error + 'a\<close>
  (\<open>Inl\<close> is the raised exception).
\<close>

datatype error =
    TypeError
  | ValueError
  | AttributeError
  | KeyError
  | WazuhError nat "string option"

text \<open>
  \<^verbatim>\<open>_expand_resource\<close> returns a Python \<^verbatim>\<open>set\<close> on most paths, but a \<^verbatim>\<open>list\<close>
  (a list comprehension) for \<^verbatim>\<open>role:id:*\<close> and \<^verbatim>\<open>policy:id:*\<close>. The two kinds of collection
  do not offer the same methods, so the model keeps them apart.
\<close>

datatype coll = PySet "string set" | PyList "string list"

fun elems :: "coll \<Rightarrow> string set" where
  "elems (PySet s) = s"
| "elems (PyList xs) = set xs"

text \<open>\<^verbatim>\<open>len(c) == 0\<close>\<close>

definition len_is_zero :: "coll \<Rightarrow> bool" where
  "len_is_zero c = (elems c = {})"

text \<open>\<^verbatim>\<open>c.intersection(s)\<close>: a method of sets only.\<close>

fun py_intersection :: "coll \<Rightarrow> string set \<Rightarrow> error + coll" where
  "py_intersection (PySet a) s = Inr (PySet (a \<inter> s))"
| "py_intersection (PyList xs) s = Inl AttributeError"

text \<open>\<^verbatim>\<open>c.update(other)\<close>: a method of sets only; the argument may be any iterable.\<close>

fun py_update :: "coll \<Rightarrow> coll \<Rightarrow> error + coll" where
  "py_update (PySet a) other = Inr (PySet (a \<union> elems other))"
| "py_update (PyList xs) other = Inl AttributeError"

text \<open>\<^verbatim>\<open>c.difference_update(other)\<close>: a method of sets only.\<close>

fun py_difference_update :: "coll \<Rightarrow> coll \<Rightarrow> error + coll" where
  "py_difference_update (PySet a) other = Inr (PySet (a - elems other))"
| "py_difference_update (PyList xs) other = Inl AttributeError"

text \<open>\<^verbatim>\<open>c.clear()\<close>: sets and lists both have it.\<close>

fun py_clear :: "coll \<Rightarrow> coll" where
  "py_clear (PySet a) = PySet {}"
| "py_clear (PyList xs) = PyList []"

text \<open>\<^verbatim>\<open>s - other\<close> for a set \<open>s\<close>: the operator needs a set on the right.\<close>

fun py_set_minus :: "string set \<Rightarrow> coll \<Rightarrow> error + coll" where
  "py_set_minus s (PySet b) = Inr (PySet (s - b))"
| "py_set_minus s (PyList xs) = Inl TypeError"

section \<open>Splitting and joining resource strings\<close>

text \<open>\<^verbatim>\<open>s.split(':')\<close>\<close>

fun split_colon :: "string \<Rightarrow> string list" where
  "split_colon [] = [[]]"
| "split_colon (c # cs) =
     (if c = CHR '':'' then [] # split_colon cs
      else (case split_colon cs of
              [] \<Rightarrow> [[c]]
            | w # ws \<Rightarrow> (c # w) # ws))"

text \<open>\<^verbatim>\<open>':'.join(xs)\<close>\<close>

fun join_colon :: "string list \<Rightarrow> string" where
  "join_colon [] = []"
| "join_colon [x] = x"
| "join_colon (x # y # ys) = x @ '':'' @ join_colon (y # ys)"

text \<open>\<^verbatim>\<open>':'.join(element.split(':')[:-1])\<close> and \<^verbatim>\<open>element.split(':')[-1]\<close>\<close>

definition res_prefix :: "string \<Rightarrow> string" where
  "res_prefix element = join_colon (butlast (split_colon element))"

definition res_value :: "string \<Rightarrow> string" where
  "res_value element = last (split_colon element)"

section \<open>The mode switch\<close>

text \<open>
  The module-level variable \<^verbatim>\<open>mode\<close> is the only state \<^verbatim>\<open>switch_mode\<close> touches. The model
  takes the stored mode and returns the outcome together with the stored mode afterwards.
\<close>

definition switch_mode :: "string \<Rightarrow> string \<Rightarrow> (error + unit) \<times> string" where
  "switch_mode m mode =
     (if m \<noteq> ''white'' \<and> m \<noteq> ''black'' then (Inl TypeError, mode)
      else (Inr (), m))"

section \<open>Resource expansion\<close>

text \<open>
  The enumeration collaborators are imported from modules outside this file.

  Modelled from the spec: \<^verbatim>\<open>get_agents_info\<close>, \<^verbatim>\<open>get_groups\<close> and \<^verbatim>\<open>expand_group\<close> are
  missing; section 6 of the specification gives them as total functions returning sets of
  strings. \<^verbatim>\<open>get_roles\<close>, \<^verbatim>\<open>get_policies\<close> and \<^verbatim>\<open>get_users\<close> stand for what the
  comprehensions over \<^verbatim>\<open>RolesManager\<close>, \<^verbatim>\<open>PoliciesManager\<close> and \<^verbatim>\<open>AuthenticationManager\<close>
  iterate: the ids, respectively the usernames, in the order the managers yield them.
\<close>

record directory =
  get_agents_info :: "string set"
  get_groups :: "string set"
  expand_group :: "string \<Rightarrow> string set"
  get_roles :: "string list"
  get_policies :: "string list"
  get_users :: "string list"

definition expand_resource :: "directory \<Rightarrow> string \<Rightarrow> error + coll" where
  "expand_resource d resource =
     (case split_colon resource of
        [name, attribute, value] \<Rightarrow>
          (let resource_type = join_colon [name, attribute] in
           if resource_type = ''agent:group'' then Inr (PySet (expand_group d value))
           else if value = ''*'' then
             (if resource_type = ''agent:id'' then Inr (PySet (get_agents_info d))
              else if resource_type = ''group:id'' then Inr (PySet (get_groups d))
              else if resource_type = ''role:id'' then Inr (PyList (get_roles d))
              else if resource_type = ''policy:id'' then Inr (PyList (get_policies d))
              else if resource_type = ''user:id'' then Inr (PySet (set (get_users d)))
              else Inr (PySet {}))
           else Inr (PySet {value}))
      | _ \<Rightarrow> Inl ValueError)"

section \<open>The permission resolver\<close>

text \<open>
  The dictionary \<^verbatim>\<open>final_user_permissions\<close> keeps its keys in insertion order, and the gate
  reads it by position, so it is an association list: \<open>AList.update\<close> overwrites a key in
  place or appends a new one, \<open>AList.delete\<close> is \<^verbatim>\<open>pop\<close>. The statements of one action
  (\<^verbatim>\<open>user_permissions_for_resource\<close>) are the items of a dictionary from resource string to
  effect, in order; effects are the strings \<^verbatim>\<open>allow\<close> and \<^verbatim>\<open>deny\<close>.
  \<^verbatim>\<open>req_resources_value\<close> is only ever looked up by key, so it is a map.
\<close>

type_synonym perms = "(string \<times> coll) list"

definition use_expanded_resource ::
    "string \<Rightarrow> coll \<Rightarrow> coll \<Rightarrow> string set \<Rightarrow> bool \<Rightarrow> error + coll" where
  "use_expanded_resource effect final_permissions expanded_resource req_resources_value delete =
     (case (if ''*'' \<notin> req_resources_value
            then py_intersection expanded_resource req_resources_value
            else Inr expanded_resource) of
        Inl e \<Rightarrow> Inl e
      | Inr expanded \<Rightarrow>
          if effect = ''allow'' then py_update final_permissions expanded
          else if delete then Inr (py_clear final_permissions)
          else py_difference_update final_permissions expanded)"

definition black_mode_expansion ::
    "directory \<Rightarrow> perms \<Rightarrow> string \<Rightarrow> string set \<Rightarrow> error + perms \<times> string set" where
  "black_mode_expansion d final_user_permissions identifier black_negation =
     (if identifier \<notin> black_negation then
        (case expand_resource d (identifier @ '':*'') of
           Inl e \<Rightarrow> Inl e
         | Inr expanded \<Rightarrow>
             Inr (AList.update identifier expanded final_user_permissions,
                  insert identifier black_negation))
      else Inr (final_user_permissions, black_negation))"

text \<open>The loop of \<^verbatim>\<open>_black_mode_sanitize\<close> over \<^verbatim>\<open>list(final_user_permissions.keys())\<close>.\<close>

fun sanitize_keys :: "string list \<Rightarrow> perms \<Rightarrow> (string \<rightharpoonup> string set) \<Rightarrow> error + perms" where
  "sanitize_keys [] final_user_permissions req_resources_value = Inr final_user_permissions"
| "sanitize_keys (user_key # keys) final_user_permissions req_resources_value =
     (case req_resources_value user_key of
        None \<Rightarrow>
          sanitize_keys keys (AList.delete user_key final_user_permissions) req_resources_value
      | Some rv \<Rightarrow>
          if rv \<noteq> {''*''} then
            (case map_of final_user_permissions user_key of
               None \<Rightarrow> Inl KeyError
             | Some c \<Rightarrow>
                 (case py_intersection c rv of
                    Inl e \<Rightarrow> Inl e
                  | Inr c' \<Rightarrow>
                      sanitize_keys keys (AList.update user_key c' final_user_permissions)
                        req_resources_value))
          else sanitize_keys keys final_user_permissions req_resources_value)"

definition black_mode_sanitize :: "perms \<Rightarrow> (string \<rightharpoonup> string set) \<Rightarrow> error + perms" where
  "black_mode_sanitize final_user_permissions req_resources_value =
     sanitize_keys (map fst final_user_permissions) final_user_permissions req_resources_value"

text \<open>The first loop of \<^verbatim>\<open>_permissions_processing\<close>: required values grouped by prefix.\<close>

fun req_values :: "string list \<Rightarrow> (string \<rightharpoonup> string set) \<Rightarrow> (string \<rightharpoonup> string set)" where
  "req_values [] req_resources_value = req_resources_value"
| "req_values (element # rest) req_resources_value =
     req_values rest
       (case req_resources_value (res_prefix element) of
          None \<Rightarrow> req_resources_value(res_prefix element \<mapsto> {res_value element})
        | Some s \<Rightarrow> req_resources_value(res_prefix element \<mapsto> insert (res_value element) s))"

text \<open>The loop of the branch for no statements in black mode.\<close>

fun default_allow :: "directory \<Rightarrow> string list \<Rightarrow> perms \<Rightarrow> error + perms" where
  "default_allow d [] final_user_permissions = Inr final_user_permissions"
| "default_allow d (req_resource # rest) final_user_permissions =
     (let identifier = res_prefix req_resource in
      if identifier = ''*:*'' then
        default_allow d rest (AList.update ''*:*'' (PySet {''*''}) final_user_permissions)
      else
        (case expand_resource d req_resource of
           Inl e \<Rightarrow> Inl e
         | Inr expanded_resource \<Rightarrow>
             (let final1 = (if identifier \<notin> fst ` set final_user_permissions
                            then AList.update identifier (PySet {}) final_user_permissions
                            else final_user_permissions) in
              case map_of final1 identifier of
                None \<Rightarrow> Inl KeyError
              | Some c \<Rightarrow>
                  (case py_update c expanded_resource of
                     Inl e \<Rightarrow> Inl e
                   | Inr c' \<Rightarrow> default_allow d rest (AList.update identifier c' final1)))))"

text \<open>
  \<^verbatim>\<open>c.update\<close>: looking the method up fails on a list, before any argument of the call is
  evaluated.
\<close>

fun update_method :: "coll \<Rightarrow> error + unit" where
  "update_method (PySet a) = Inr ()"
| "update_method (PyList xs) = Inl AttributeError"

text \<open>
  One iteration of the loop over the statements. The state is the dictionary together with
  \<^verbatim>\<open>black_negation\<close>. A \<^verbatim>\<open>KeyError\<close> can only come from \<^verbatim>\<open>req_resources_value[identifier]\<close>,
  which is evaluated before anything in the \<^verbatim>\<open>try\<close> block is mutated. In
  \<^verbatim>\<open>final_user_permissions[identifier].update(req_resources_value[identifier] - expanded_resource)\<close>
  the method is looked up first, then \<^verbatim>\<open>req_resources_value[identifier]\<close>, then the
  difference is taken. The condition before it reads \<^verbatim>\<open>req_resources_value[identifier]\<close>
  unless \<^verbatim>\<open>identifier\<close> is \<^verbatim>\<open>*:*\<close>, so for every other identifier a missing key is found
  before the method is looked up.
\<close>

definition statement_step ::
    "string \<Rightarrow> directory \<Rightarrow> (string \<rightharpoonup> string set) \<Rightarrow> perms \<times> string set \<Rightarrow> string \<times> string
       \<Rightarrow> error + perms \<times> string set" where
  "statement_step mode d req_resources_value st stmt =
     (case (st, stmt) of ((final_user_permissions, black_negation), (user_resource, user_resource_effect)) \<Rightarrow>
      (case split_colon user_resource of
         [name, attribute, value] \<Rightarrow>
           (let identifier0 = name @ '':'' @ attribute;
                identifier = (if identifier0 = ''agent:group'' then ''agent:id'' else identifier0);
                final1 = (if identifier \<notin> fst ` set final_user_permissions
                          then AList.update identifier (PySet {}) final_user_permissions
                          else final_user_permissions) in
            case (if mode = ''black'' then black_mode_expansion d final1 identifier black_negation
                  else Inr (final1, black_negation)) of
              Inl e \<Rightarrow> Inl e
            | Inr (final2, black_negation2) \<Rightarrow>
                (case expand_resource d user_resource of
                   Inl e \<Rightarrow> Inl e
                 | Inr expanded_resource \<Rightarrow>
                     (case map_of final2 identifier of
                        None \<Rightarrow> Inl KeyError
                      | Some current \<Rightarrow>
                          (case req_resources_value identifier of
                             None \<Rightarrow>
                               (case (if identifier = ''*:*'' then update_method current
                                      else Inr ()) of
                                  Inl e \<Rightarrow> Inl e
                                | Inr _ \<Rightarrow>
                                    Inr (if len_is_zero current
                                         then AList.delete identifier final2
                                         else final2, black_negation2))
                           | Some rv \<Rightarrow>
                               (case (if identifier = ''*:*'' \<or>
                                         (user_resource_effect = ''allow'' \<and> ''*'' \<notin> rv \<and> value = ''*'')
                                      then (case update_method current of
                                              Inl e \<Rightarrow> Inl e
                                            | Inr _ \<Rightarrow>
                                                (case py_set_minus rv expanded_resource of
                                                   Inl e \<Rightarrow> Inl e
                                                 | Inr missing \<Rightarrow> py_update current missing))
                                      else Inr current) of
                                  Inl e \<Rightarrow> Inl e
                                | Inr current1 \<Rightarrow>
                                    (case use_expanded_resource user_resource_effect current1
                                            expanded_resource rv
                                            (value = ''*'' \<and> user_resource_effect = ''deny'') of
                                       Inl e \<Rightarrow> Inl e
                                     | Inr current2 \<Rightarrow>
                                         Inr (AList.update identifier current2 final2,
                                              black_negation2)))))))
       | _ \<Rightarrow> Inl ValueError))"

fun statements_loop ::
    "string \<Rightarrow> directory \<Rightarrow> (string \<rightharpoonup> string set) \<Rightarrow> (string \<times> string) list
       \<Rightarrow> perms \<times> string set \<Rightarrow> error + perms \<times> string set" where
  "statements_loop mode d req_resources_value [] st = Inr st"
| "statements_loop mode d req_resources_value (stmt # rest) st =
     (case statement_step mode d req_resources_value st stmt of
        Inl e \<Rightarrow> Inl e
      | Inr st' \<Rightarrow> statements_loop mode d req_resources_value rest st')"

text \<open>
  \<^verbatim>\<open>_permissions_processing\<close>. The global \<^verbatim>\<open>mode\<close> is a parameter; the updated dictionary is
  returned.
\<close>

definition permissions_processing ::
    "string \<Rightarrow> directory \<Rightarrow> string list \<Rightarrow> (string \<times> string) list \<Rightarrow> perms \<Rightarrow> error + perms" where
  "permissions_processing mode d req_resources user_permissions_for_resource final_user_permissions =
     (let req_resources_value = req_values req_resources Map.empty in
      if user_permissions_for_resource = [] \<and> mode = ''black'' then
        default_allow d req_resources final_user_permissions
      else
        (case statements_loop mode d req_resources_value user_permissions_for_resource
                (final_user_permissions, {}) of
           Inl e \<Rightarrow> Inl e
         | Inr (final, black_negation) \<Rightarrow>
             if mode = ''black'' then black_mode_sanitize final req_resources_value
             else Inr final))"

text \<open>
  \<^verbatim>\<open>_match_permissions\<close>: \<^verbatim>\<open>rbac[req_action]\<close> raising \<^verbatim>\<open>KeyError\<close> means an empty statement
  dictionary. No \<^verbatim>\<open>KeyError\<close> leaves \<^verbatim>\<open>_permissions_processing\<close> itself (every key it looks up
  in \<^verbatim>\<open>final_user_permissions\<close> was inserted before), so the handler is modelled on the
  lookup alone.
\<close>

fun match_loop ::
    "string \<Rightarrow> directory \<Rightarrow> (string \<rightharpoonup> (string \<times> string) list) \<Rightarrow> (string \<times> string list) list
       \<Rightarrow> perms \<Rightarrow> error + perms" where
  "match_loop mode d rbac [] allow_match = Inr allow_match"
| "match_loop mode d rbac ((req_action, req_resources) # rest) allow_match =
     (case permissions_processing mode d req_resources
             (case rbac req_action of None \<Rightarrow> [] | Some statements \<Rightarrow> statements) allow_match of
        Inl e \<Rightarrow> Inl e
      | Inr allow_match' \<Rightarrow> match_loop mode d rbac rest allow_match')"

definition match_permissions ::
    "string \<Rightarrow> directory \<Rightarrow> (string \<times> string list) list \<Rightarrow> (string \<rightharpoonup> (string \<times> string) list)
       \<Rightarrow> error + perms" where
  "match_permissions mode d req_permissions rbac = match_loop mode d rbac req_permissions []"



section \<open>The required-resource parser\<close>

text \<open>
  The caller's statements, the value of the keyword argument \<^verbatim>\<open>rbac\<close>: a dictionary from
  action to the statements of that action.
\<close>

type_synonym statements = "string \<rightharpoonup> (string \<times> string) list"

text \<open>
  The call's keyword arguments: a parameter is bound to \<^verbatim>\<open>None\<close>, to a string, to a list of
  strings or, as \<^verbatim>\<open>rbac\<close> is, to a dictionary of statements.
\<close>

datatype pyarg = ArgNone | ArgStr string | ArgList "string list" | ArgDict statements

text \<open>
  The pattern \<^verbatim>\<open>^([a-z*]+:[a-z*]+:)(\w+|\*|{(\w+)})$\<close>. A \<^typ>\<open>char\<close> is a code point below
  256, and \<^verbatim>\<open>\w\<close> on a Python string is Unicode-aware: besides the ASCII letters, the digits
  and the underscore it matches the code points 170, 178, 179, 181, 185, 186, 188, 189, 190,
  192 to 214, 216 to 246 and 248 to 255. \<^verbatim>\<open>$\<close> also matches just before one final newline.
  The first two fields hold no colon and neither does the third, so a match is a split into
  three fields of the right shapes.
\<close>

definition lower_or_star :: "char \<Rightarrow> bool" where
  "lower_or_star c = (c \<in> set ''abcdefghijklmnopqrstuvwxyz*'')"

definition word_char :: "char \<Rightarrow> bool" where
  "word_char c =
     (c \<in> set ''abcdefghijklmnopqrstuvwxyzABCDEFGHIJKLMNOPQRSTUVWXYZ0123456789_'' \<or>
      (of_char c :: nat) \<in> {170, 178, 179, 181, 185, 186, 188, 189, 190} \<or>
      (192 \<le> (of_char c :: nat) \<and> (of_char c :: nat) \<le> 214) \<or>
      (216 \<le> (of_char c :: nat) \<and> (of_char c :: nat) \<le> 246) \<or>
      248 \<le> (of_char c :: nat))"

datatype rmatch = RMatch (group1: string) (group2: string) (group3: "string option")

definition resource_match :: "string \<Rightarrow> rmatch option" where
  "resource_match resource =
     (let s = (if resource \<noteq> [] \<and> last resource = CHR 0x0A then butlast resource else resource) in
      case split_colon s of
        [n, a, v] \<Rightarrow>
          if n \<noteq> [] \<and> list_all lower_or_star n \<and> a \<noteq> [] \<and> list_all lower_or_star a then
            (if v \<noteq> [] \<and> list_all word_char v then Some (RMatch (n @ '':'' @ a @ '':'') v None)
             else if v = ''*'' then Some (RMatch (n @ '':'' @ a @ '':'') v None)
             else if 2 < length v \<and> hd v = CHR ''{'' \<and> last v = CHR ''}'' \<and>
                     list_all word_char (butlast (tl v))
               then Some (RMatch (n @ '':'' @ a @ '':'') v (Some (butlast (tl v))))
             else None)
          else None
      | _ \<Rightarrow> None)"

text \<open>
  One iteration of the loop over \<^verbatim>\<open>resources\<close>; the state is
  \<^verbatim>\<open>(res_list, target_params, add_denied)\<close>. With no match \<^verbatim>\<open>m\<close> is \<^verbatim>\<open>None\<close> and
  \<^verbatim>\<open>m.group(1)\<close> raises \<^verbatim>\<open>AttributeError\<close>. \<^verbatim>\<open>'{' in m.group(2)\<close> holds exactly when the third
  alternative matched, that is when group 3 took part in the match. \<open>py_str\<close> is Python's
  \<^verbatim>\<open>str\<close> on a dictionary of statements, which \<^verbatim>\<open>format\<close> applies to a parameter bound to
  one; its text is left open.
\<close>

definition required_step ::
    "(statements \<Rightarrow> string) \<Rightarrow> (string \<rightharpoonup> pyarg) \<Rightarrow> string list \<times> string list \<times> bool
       \<Rightarrow> string \<Rightarrow> error + string list \<times> string list \<times> bool" where
  "required_step py_str kwargs st resource =
     (case st of (res_list, target_params, add_denied) \<Rightarrow>
      (case resource_match resource of
         None \<Rightarrow> Inl AttributeError
       | Some m \<Rightarrow>
           (case group3 m of
              Some name \<Rightarrow>
                (case kwargs name of
                   Some (ArgList params) \<Rightarrow>
                     if params = [] then Inl (WazuhError 4015 (Some name))
                     else Inr (res_list @ map (\<lambda>param. group1 m @ param) params,
                               target_params @ [name], add_denied)
                 | Some ArgNone \<Rightarrow>
                     Inr (res_list @ [group1 m @ ''*''], target_params @ [name], True)
                 | Some (ArgStr params) \<Rightarrow>
                     if params = ''*''
                     then Inr (res_list @ [group1 m @ ''*''], target_params @ [name], True)
                     else Inr (res_list @ [group1 m @ params], target_params @ [name], add_denied)
                 | Some (ArgDict params) \<Rightarrow>
                     Inr (res_list @ [group1 m @ py_str params], target_params @ [name],
                          add_denied)
                 | None \<Rightarrow>
                     Inr (res_list @ [group1 m @ ''*''], target_params @ [name], False))
            | None \<Rightarrow>
                Inr (res_list @ [resource], target_params @ [group2 m], add_denied))))"

text \<open>
  The templates whose iteration assigns \<^verbatim>\<open>add_denied = True\<close>: a placeholder bound to
  \<^verbatim>\<open>None\<close> or to \<^verbatim>\<open>'*'\<close>.
\<close>

definition sets_add_denied :: "(string \<rightharpoonup> pyarg) \<Rightarrow> string \<Rightarrow> bool" where
  "sets_add_denied kwargs resource =
     (case resource_match resource of
        None \<Rightarrow> False
      | Some m \<Rightarrow>
          (case group3 m of
             None \<Rightarrow> False
           | Some name \<Rightarrow> kwargs name = Some ArgNone \<or> kwargs name = Some (ArgStr ''*'')))"

fun required_loop ::
    "(statements \<Rightarrow> string) \<Rightarrow> (string \<rightharpoonup> pyarg) \<Rightarrow> string list
       \<Rightarrow> string list \<times> string list \<times> bool
       \<Rightarrow> error + string list \<times> string list \<times> bool" where
  "required_loop py_str kwargs [] st = Inr st"
| "required_loop py_str kwargs (resource # rest) st =
     (case required_step py_str kwargs st resource of
        Inl e \<Rightarrow> Inl e
      | Inr st' \<Rightarrow> required_loop py_str kwargs rest st')"

text \<open>
  \<^verbatim>\<open>_get_required_permissions\<close> returns \<^verbatim>\<open>(target_params, req_permissions, add_denied)\<close>;
  \<^verbatim>\<open>req_permissions\<close> is a dictionary from action to the one resource list.
\<close>

definition get_required_permissions ::
    "(statements \<Rightarrow> string) \<Rightarrow> string list \<Rightarrow> string list \<Rightarrow> (string \<rightharpoonup> pyarg)
       \<Rightarrow> error + string list \<times> (string \<times> string list) list \<times> bool" where
  "get_required_permissions py_str actions resources kwargs =
     (case required_loop py_str kwargs resources ([], [], True) of
        Inl e \<Rightarrow> Inl e
      | Inr (res_list, target_params, add_denied) \<Rightarrow>
          Inr (target_params,
               fold (\<lambda>action req_permissions. AList.update action res_list req_permissions)
                 actions [],
               add_denied))"

section \<open>The authorization gate\<close>

text \<open>
  What the wrapped function receives for a parameter: the caller's value, or
  \<^verbatim>\<open>list(allow[...])\<close>, the permitted values as a list (in no fixed order when they come
  from a set).
\<close>

datatype narg = Given pyarg | Allowed coll

text \<open>
  The loop over \<^verbatim>\<open>enumerate(target_params)\<close>. Everything raised inside the \<^verbatim>\<open>try\<close> (the
  explicit \<^verbatim>\<open>Exception\<close> for an empty set, the \<^verbatim>\<open>IndexError\<close> of
  \<^verbatim>\<open>list(allow.keys())[index]\<close>) is turned into \<^verbatim>\<open>WazuhError(4000)\<close>.
\<close>

fun gate_loop ::
    "perms \<Rightarrow> (nat \<times> string) list \<Rightarrow> (string \<rightharpoonup> narg) \<Rightarrow> error + (string \<rightharpoonup> narg)" where
  "gate_loop allow [] kwargs = Inr kwargs"
| "gate_loop allow ((index, target) # rest) kwargs =
     (if index < length (map fst allow) then
        (case map_of allow (map fst allow ! index) of
           None \<Rightarrow> Inl (WazuhError 4000 None)
         | Some c \<Rightarrow>
             if len_is_zero c then Inl (WazuhError 4000 None)
             else gate_loop allow rest
                    (if target \<noteq> ''*'' then kwargs(target \<mapsto> Allowed c) else kwargs))
      else Inl (WazuhError 4000 None))"

text \<open>
  The decorated function. \<open>func\<close> is the wrapped operation: it takes the keyword arguments
  and the state of the world, and returns its outcome with the new state.
  \<open>post_proc_func\<close> is \<open>None\<close> or the post-processor, applied to the result,
  \<^verbatim>\<open>original_kwargs\<close>, \<^verbatim>\<open>allow\<close>, \<^verbatim>\<open>target_params\<close> and \<^verbatim>\<open>add_denied\<close>.

  The keyword arguments are handed to \<^verbatim>\<open>_get_required_permissions\<close> beside \<^verbatim>\<open>actions\<close> and
  \<^verbatim>\<open>resources\<close>, so a call that has one of these two names among them raises \<^verbatim>\<open>TypeError\<close>.
  A call without the entry \<^verbatim>\<open>rbac\<close> raises \<^verbatim>\<open>KeyError\<close>; an entry \<^verbatim>\<open>rbac\<close> that is not a
  dictionary raises \<^verbatim>\<open>TypeError\<close> at \<^verbatim>\<open>rbac[req_action]\<close> for the first action.
\<close>

definition wrapper ::
    "(statements \<Rightarrow> string) \<Rightarrow> string list \<Rightarrow> string list
       \<Rightarrow> ('r \<Rightarrow> (string \<rightharpoonup> pyarg) \<Rightarrow> perms \<Rightarrow> string list \<Rightarrow> bool \<Rightarrow> error + 'r) option
       \<Rightarrow> bool
       \<Rightarrow> ((string \<rightharpoonup> narg) \<Rightarrow> 's \<Rightarrow> (error + 'r) \<times> 's)
       \<Rightarrow> string \<Rightarrow> directory \<Rightarrow> (string \<rightharpoonup> pyarg) \<Rightarrow> 's
       \<Rightarrow> (error + 'r) \<times> 's" where
  "wrapper py_str actions resources post_proc_func stack func mode d kwargs s =
     (if kwargs ''actions'' = None \<and> kwargs ''resources'' = None then
        (case get_required_permissions py_str actions resources kwargs of
           Inl e \<Rightarrow> (Inl e, s)
         | Inr (target_params, req_permissions, add_denied) \<Rightarrow>
             (case kwargs ''rbac'' of
                None \<Rightarrow> (Inl KeyError, s)
              | Some rbac \<Rightarrow>
                  (case (case rbac of
                           ArgDict user_statements \<Rightarrow>
                             match_permissions mode d req_permissions user_statements
                         | _ \<Rightarrow> if req_permissions = [] then Inr [] else Inl TypeError) of
                     Inl e \<Rightarrow> (Inl e, s)
                   | Inr allow \<Rightarrow>
                       (let kwargs1 = (if stack then kwargs else kwargs(''rbac'' := None));
                            original_kwargs = kwargs1 in
                        case gate_loop allow (enumerate 0 target_params)
                               (\<lambda>k. map_option Given (kwargs1 k)) of
                          Inl e \<Rightarrow> (Inl e, s)
                        | Inr kwargs' \<Rightarrow>
                            (case func kwargs' s of
                               (Inl e, s') \<Rightarrow> (Inl e, s')
                             | (Inr result, s') \<Rightarrow>
                                 (case post_proc_func of
                                    None \<Rightarrow> (Inr result, s')
                                  | Some post \<Rightarrow>
                                      (post result original_kwargs allow target_params
                                         add_denied, s')))))))
      else (Inl TypeError, s))"

section \<open>A fixture directory\<close>

text \<open>A small directory, used to run the definitions on concrete calls.\<close>

definition example_directory :: directory where
  "example_directory =
     \<lparr>get_agents_info = {''001'', ''002'', ''003''},
      get_groups = {''default''},
      expand_group = (\<lambda>g. if g = ''groupA'' then {''010'', ''011''} else {}),
      get_roles = [''1''],
      get_policies = [''1''],
      get_users = [''wazuh'']\<rparr>"

section \<open>Properties\<close>

text \<open>
  C10. \<^verbatim>\<open>switch_mode\<close> accepts exactly the strings \<^verbatim>\<open>white\<close> and \<^verbatim>\<open>black\<close>: for every other
  argument it raises \<^verbatim>\<open>TypeError\<close> and the stored mode is unchanged, and for a valid
  argument it raises nothing and the stored mode afterwards is the argument.
\<close>

theorem switch_mode_spec:
  "(m = ''white'' \<or> m = ''black'' \<longrightarrow> switch_mode m mode = (Inr (), m)) \<and>
   (m \<noteq> ''white'' \<and> m \<noteq> ''black'' \<longrightarrow> switch_mode m mode = (Inl TypeError, mode))"
  by (simp add: switch_mode_def)

theorem switch_mode_spec_witness:
  "switch_mode ''black'' ''white'' = (Inr (), ''black'') \<and>
   switch_mode ''grey'' ''white'' = (Inl TypeError, ''white'')"
  using switch_mode_spec [of "''black''" "''white''"] switch_mode_spec [of "''grey''" "''white''"]
  by simp

text \<open>
  C9. For an identifier of three fields, \<^verbatim>\<open>_expand_resource\<close> asks the group-membership
  collaborator whenever the prefix is \<^verbatim>\<open>agent:group\<close>, whatever the value; for the value
  \<^verbatim>\<open>*\<close> under a prefix that is neither \<^verbatim>\<open>agent:group\<close> nor one of the five enumerable
  prefixes it returns the empty set; and for a value other than \<^verbatim>\<open>*\<close> under a prefix other
  than \<^verbatim>\<open>agent:group\<close> it returns the singleton of the value.
\<close>

theorem expand_resource_cases:
  assumes "split_colon resource = [name, attribute, value]"
  shows "(res_prefix resource = ''agent:group'' \<longrightarrow>
            expand_resource d resource = Inr (PySet (expand_group d value))) \<and>
         (res_prefix resource \<notin> {''agent:group'', ''agent:id'', ''group:id'', ''role:id'',
                                     ''policy:id'', ''user:id''} \<and> value = ''*'' \<longrightarrow>
            expand_resource d resource = Inr (PySet {})) \<and>
         (res_prefix resource \<noteq> ''agent:group'' \<and> value \<noteq> ''*'' \<longrightarrow>
            expand_resource d resource = Inr (PySet {value}))"
  using assms by (simp add: expand_resource_def res_prefix_def)

theorem expand_resource_cases_witness:
  "expand_resource example_directory ''agent:group:groupA'' = Inr (PySet {''010'', ''011''}) \<and>
   expand_resource example_directory ''agent:group:*'' = Inr (PySet {}) \<and>
   expand_resource example_directory ''rule:file:*'' = Inr (PySet {}) \<and>
   expand_resource example_directory ''agent:id:001'' = Inr (PySet {''001''})"
  using
    expand_resource_cases [of "''agent:group:groupA''" "''agent''" "''group''" "''groupA''"
      example_directory]
    expand_resource_cases [of "''agent:group:*''" "''agent''" "''group''" "''*''"
      example_directory]
    expand_resource_cases [of "''rule:file:*''" "''rule''" "''file''" "''*''" example_directory]
    expand_resource_cases [of "''agent:id:001''" "''agent''" "''id''" "''001''" example_directory]
  by (simp add: res_prefix_def example_directory_def)

text \<open>
  C6 (scenario C). In white mode, with the required resource \<^verbatim>\<open>agent:id:001\<close> and the
  statements \<^verbatim>\<open>(agent:id:*, allow)\<close> then \<^verbatim>\<open>(agent:id:001, deny)\<close>, the resolver returns the
  empty set for \<^verbatim>\<open>agent:id\<close>, whatever the directory holds; and a call of an operation
  declared on \<^verbatim>\<open>agent:id:{agent_id}\<close> for agent \<^verbatim>\<open>001\<close> with these statements is rejected
  with \<^verbatim>\<open>WazuhError(4000)\<close>, the state of the world untouched.
\<close>

theorem scenario_c_rejected:
  "permissions_processing ''white'' d [''agent:id:001'']
     [(''agent:id:*'', ''allow''), (''agent:id:001'', ''deny'')] [] =
     Inr [(''agent:id'', PySet {})] \<and>
   wrapper py_str [action] [''agent:id:{agent_id}''] post_proc_func stack func ''white'' d
     [''agent_id'' \<mapsto> ArgList [''001''],
      ''rbac'' \<mapsto> ArgDict [action \<mapsto> [(''agent:id:*'', ''allow''), (''agent:id:001'', ''deny'')]]]
     s =
     (Inl (WazuhError 4000 None), s)"
  by (simp add: wrapper_def get_required_permissions_def required_step_def resource_match_def
       lower_or_star_def word_char_def match_permissions_def len_is_zero_def
       permissions_processing_def statement_step_def expand_resource_def
       use_expanded_resource_def res_prefix_def res_value_def)

theorem scenario_c_rejected_witness:
  "permissions_processing ''white'' example_directory [''agent:id:001'']
     [(''agent:id:*'', ''allow''), (''agent:id:001'', ''deny'')] [] =
     Inr [(''agent:id'', PySet {})] \<and>
   wrapper (\<lambda>statements. ''{}'') [''agent:read''] [''agent:id:{agent_id}''] None False
     (\<lambda>kwargs called. (Inr (), True)) ''white'' example_directory
     [''agent_id'' \<mapsto> ArgList [''001''],
      ''rbac'' \<mapsto> ArgDict [''agent:read'' \<mapsto>
         [(''agent:id:*'', ''allow''), (''agent:id:001'', ''deny'')]]]
     False =
     (Inl (WazuhError 4000 None), False)"
  using scenario_c_rejected [of example_directory "\<lambda>statements. ''{}''" "''agent:read''" None
      False "\<lambda>kwargs called. (Inr (), True)" False]
  by simp

text \<open>
  C4 (scenario D), as the code has it. The statement \<^verbatim>\<open>(agent:group:groupA, allow)\<close> is filed
  under \<^verbatim>\<open>agent:id\<close>, and the required values are looked up under that same key. A call
  that requires \<^verbatim>\<open>agent:group:groupA\<close> has no required values under \<^verbatim>\<open>agent:id\<close>, so the
  resolver returns the empty dictionary; the grant \<^verbatim>\<open>{agent:id: {010, 011}}\<close> is what a call
  requiring \<^verbatim>\<open>agent:id:010\<close> and \<^verbatim>\<open>agent:id:011\<close> gets.
\<close>

theorem scenario_d_group_grant:
  assumes "expand_group d ''groupA'' = {''010'', ''011''}"
  shows "permissions_processing ''white'' d [''agent:group:groupA'']
           [(''agent:group:groupA'', ''allow'')] [] = Inr [] \<and>
         permissions_processing ''white'' d [''agent:id:010'', ''agent:id:011'']
           [(''agent:group:groupA'', ''allow'')] [] =
           Inr [(''agent:id'', PySet {''010'', ''011''})]"
  using assms
  by (auto simp add: permissions_processing_def statement_step_def expand_resource_def
        use_expanded_resource_def res_prefix_def res_value_def len_is_zero_def)

theorem scenario_d_group_grant_witness:
  "expand_group example_directory ''groupA'' = {''010'', ''011''} \<and>
   permissions_processing ''white'' example_directory [''agent:group:groupA'']
     [(''agent:group:groupA'', ''allow'')] [] = Inr [] \<and>
   permissions_processing ''white'' example_directory [''agent:id:010'', ''agent:id:011'']
     [(''agent:group:groupA'', ''allow'')] [] =
     Inr [(''agent:id'', PySet {''010'', ''011''})]"
proof -
  have h: "expand_group example_directory ''groupA'' = {''010'', ''011''}"
    by (simp add: example_directory_def)
  show ?thesis
    using h scenario_d_group_grant [OF h] by simp
qed

theorem scenario_d_counterexample:
  "expand_group example_directory ''groupA'' = {''010'', ''011''} \<and>
   permissions_processing ''white'' example_directory [''agent:group:groupA'']
     [(''agent:group:groupA'', ''allow'')] [] \<noteq>
     Inr [(''agent:id'', PySet {''010'', ''011''})]"
  by (simp add: example_directory_def permissions_processing_def statement_step_def
        expand_resource_def use_expanded_resource_def res_prefix_def res_value_def
        len_is_zero_def)

subsection \<open>The branch for no statements in black mode\<close>

lemma expand_resource_three:
  "split_colon r = [n, a, v] \<Longrightarrow> \<exists>c. expand_resource d r = Inr c"
  by (simp add: expand_resource_def Let_def)

lemma map_of_None_keys: "(k \<notin> fst ` set al) = (map_of al k = None)"
  by (simp add: map_of_eq_None_iff)

lemma default_allow_char:
  assumes "\<forall>r\<in>set R. res_prefix r = ''*:*'' \<or> (\<exists>n a v. split_colon r = [n, a, v])"
      and "\<forall>p c. map_of final0 p = Some c \<longrightarrow> (\<exists>s. c = PySet s)"
  shows "\<exists>final. default_allow d R final0 = Inr final \<and>
           (\<forall>p. map_of final p =
              (if p \<in> res_prefix ` set R then
                 (if p = ''*:*'' then Some (PySet {''*''})
                  else Some (PySet ((case map_of final0 p of None \<Rightarrow> {} | Some c \<Rightarrow> elems c) \<union>
                         (\<Union>r\<in>{r \<in> set R. res_prefix r = p}.
                            case expand_resource d r of Inl e \<Rightarrow> {} | Inr c \<Rightarrow> elems c))))
               else map_of final0 p))"
  using assms
proof (induction R arbitrary: final0)
  case Nil
  then show ?case by simp
next
  case (Cons r R)
  show ?case
  proof (cases "res_prefix r = ''*:*''")
    case True
    let ?f1 = "AList.update ''*:*'' (PySet {''*''}) final0"
    have a1: "\<forall>r\<in>set R. res_prefix r = ''*:*'' \<or> (\<exists>n a v. split_colon r = [n, a, v])"
      using Cons.prems(1) by simp
    have a2: "\<forall>p c. map_of ?f1 p = Some c \<longrightarrow> (\<exists>s. c = PySet s)"
      using Cons.prems(2) by (simp add: update_conv')
    from Cons.IH [OF a1 a2] obtain final where
      f: "default_allow d R ?f1 = Inr final" and
      g: "\<forall>p. map_of final p =
              (if p \<in> res_prefix ` set R then
                 (if p = ''*:*'' then Some (PySet {''*''})
                  else Some (PySet ((case map_of ?f1 p of None \<Rightarrow> {} | Some c \<Rightarrow> elems c) \<union>
                         (\<Union>r\<in>{r \<in> set R. res_prefix r = p}.
                            case expand_resource d r of Inl e \<Rightarrow> {} | Inr c \<Rightarrow> elems c))))
               else map_of ?f1 p)" by blast
    have "default_allow d (r # R) final0 = Inr final"
      using True f by simp
    moreover have "\<forall>p. map_of final p =
              (if p \<in> res_prefix ` set (r # R) then
                 (if p = ''*:*'' then Some (PySet {''*''})
                  else Some (PySet ((case map_of final0 p of None \<Rightarrow> {} | Some c \<Rightarrow> elems c) \<union>
                         (\<Union>r\<in>{x \<in> set (r # R). res_prefix x = p}.
                            case expand_resource d r of Inl e \<Rightarrow> {} | Inr c \<Rightarrow> elems c))))
               else map_of final0 p)"
    proof
      fix p
      show "map_of final p =
              (if p \<in> res_prefix ` set (r # R) then
                 (if p = ''*:*'' then Some (PySet {''*''})
                  else Some (PySet ((case map_of final0 p of None \<Rightarrow> {} | Some c \<Rightarrow> elems c) \<union>
                         (\<Union>r\<in>{x \<in> set (r # R). res_prefix x = p}.
                            case expand_resource d r of Inl e \<Rightarrow> {} | Inr c \<Rightarrow> elems c))))
               else map_of final0 p)"
      proof (cases "p = ''*:*''")
        case True
        then show ?thesis using g \<open>res_prefix r = ''*:*''\<close> by (simp add: update_conv')
      next
        case False
        have "{x \<in> set (r # R). res_prefix x = p} = {x \<in> set R. res_prefix x = p}"
          using False \<open>res_prefix r = ''*:*''\<close> by auto
        moreover have "p \<in> res_prefix ` set (r # R) \<longleftrightarrow> p \<in> res_prefix ` set R"
          using False \<open>res_prefix r = ''*:*''\<close> by auto
        ultimately show ?thesis using g False by (simp add: update_conv')
      qed
    qed
    ultimately show ?thesis by blast
  next
    case False
    then obtain n a v where sp: "split_colon r = [n, a, v]"
      using Cons.prems(1) by auto
    then obtain e where e: "expand_resource d r = Inr e"
      using expand_resource_three by blast
    let ?i = "res_prefix r"
    let ?cur = "(case map_of final0 ?i of None \<Rightarrow> {} | Some c \<Rightarrow> elems c)"
    let ?f0 = "(if ?i \<notin> fst ` set final0 then AList.update ?i (PySet {}) final0 else final0)"
    have cur: "map_of ?f0 ?i = Some (PySet ?cur)"
    proof (cases "map_of final0 ?i")
      case None
      then show ?thesis by (simp add: map_of_None_keys update_conv')
    next
      case (Some c)
      then obtain s where "c = PySet s" using Cons.prems(2) by blast
      then show ?thesis using Some by (simp add: map_of_None_keys)
    qed
    let ?f1 = "AList.update ?i (PySet (?cur \<union> elems e)) ?f0"
    have m1: "map_of ?f1 = (map_of final0)(?i \<mapsto> PySet (?cur \<union> elems e))"
      by (auto simp add: update_conv')
    have a1: "\<forall>r\<in>set R. res_prefix r = ''*:*'' \<or> (\<exists>n a v. split_colon r = [n, a, v])"
      using Cons.prems(1) by simp
    have a2: "\<forall>p c. map_of ?f1 p = Some c \<longrightarrow> (\<exists>s. c = PySet s)"
      unfolding m1 using Cons.prems(2) by simp
    from Cons.IH [OF a1 a2] obtain final where
      f: "default_allow d R ?f1 = Inr final" and
      g: "\<forall>p. map_of final p =
              (if p \<in> res_prefix ` set R then
                 (if p = ''*:*'' then Some (PySet {''*''})
                  else Some (PySet ((case map_of ?f1 p of None \<Rightarrow> {} | Some c \<Rightarrow> elems c) \<union>
                         (\<Union>r\<in>{r \<in> set R. res_prefix r = p}.
                            case expand_resource d r of Inl e \<Rightarrow> {} | Inr c \<Rightarrow> elems c))))
               else map_of ?f1 p)" by blast
    have step: "default_allow d (r # R) final0 = Inr final"
      using False e cur f by (simp add: Let_def)
    have "\<forall>p. map_of final p =
              (if p \<in> res_prefix ` set (r # R) then
                 (if p = ''*:*'' then Some (PySet {''*''})
                  else Some (PySet ((case map_of final0 p of None \<Rightarrow> {} | Some c \<Rightarrow> elems c) \<union>
                         (\<Union>r\<in>{x \<in> set (r # R). res_prefix x = p}.
                            case expand_resource d r of Inl e \<Rightarrow> {} | Inr c \<Rightarrow> elems c))))
               else map_of final0 p)"
    proof
      fix p
      show "map_of final p =
              (if p \<in> res_prefix ` set (r # R) then
                 (if p = ''*:*'' then Some (PySet {''*''})
                  else Some (PySet ((case map_of final0 p of None \<Rightarrow> {} | Some c \<Rightarrow> elems c) \<union>
                         (\<Union>r\<in>{x \<in> set (r # R). res_prefix x = p}.
                            case expand_resource d r of Inl e \<Rightarrow> {} | Inr c \<Rightarrow> elems c))))
               else map_of final0 p)"
      proof (cases "p = ?i")
        case True
        have s: "{x \<in> set (r # R). res_prefix x = p} = insert r {x \<in> set R. res_prefix x = p}"
          using True by auto
        show ?thesis
          using g [rule_format, of p] True False e unfolding m1 s
          by (auto simp add: Un_assoc image_iff)
      next
        case F: False
        have s: "{x \<in> set (r # R). res_prefix x = p} = {x \<in> set R. res_prefix x = p}"
          using F by auto
        have t: "p \<in> res_prefix ` set (r # R) \<longleftrightarrow> p \<in> res_prefix ` set R"
          using F by auto
        show ?thesis
          using g [rule_format, of p] F unfolding m1 s t by simp
      qed
    qed
    with step show ?thesis by blast
  qed
qed


text \<open>
  C7. In black mode, for an action the caller has no statements for (no entry in \<^verbatim>\<open>rbac\<close>, or
  an empty one), and required resources of three fields each, the resolver returns a
  dictionary that holds \<^verbatim>\<open>{'*'}\<close> under \<^verbatim>\<open>*:*\<close> when that prefix is required, and under every
  other required prefix the union of the expansions of the required resources of that
  prefix; nothing else. So requiring \<^verbatim>\<open>agent:id:*\<close> gives all the agent ids of the directory.
\<close>

theorem black_default_allow:
  assumes "\<forall>r\<in>set req_resources. \<exists>n a v. split_colon r = [n, a, v]"
      and "rbac req_action = None"
  shows "(\<exists>final.
            permissions_processing ''black'' d req_resources [] [] = Inr final \<and>
            match_permissions ''black'' d [(req_action, req_resources)] rbac = Inr final \<and>
            (\<forall>p. map_of final p =
               (if p \<notin> res_prefix ` set req_resources then None
                else if p = ''*:*'' then Some (PySet {''*''})
                else Some (PySet {x. \<exists>r\<in>set req_resources. res_prefix r = p \<and>
                                   (\<exists>c. expand_resource d r = Inr c \<and> x \<in> elems c)})))) \<and>
         match_permissions ''black'' d [(req_action, [''agent:id:*''])] rbac =
           Inr [(''agent:id'', PySet (get_agents_info d))]"
proof
  have a1: "\<forall>r\<in>set req_resources. res_prefix r = ''*:*'' \<or> (\<exists>n a v. split_colon r = [n, a, v])"
    using assms(1) by blast
  have a2: "\<forall>p c. map_of ([] :: perms) p = Some c \<longrightarrow> (\<exists>s. c = PySet s)"
    by simp
  from default_allow_char [OF a1 a2, of d] obtain final where
    f: "default_allow d req_resources [] = Inr final" and
    g: "\<forall>p. map_of final p =
              (if p \<in> res_prefix ` set req_resources then
                 (if p = ''*:*'' then Some (PySet {''*''})
                  else Some (PySet ((case map_of ([] :: perms) p of None \<Rightarrow> {} | Some c \<Rightarrow> elems c) \<union>
                         (\<Union>r\<in>{r \<in> set req_resources. res_prefix r = p}.
                            case expand_resource d r of Inl e \<Rightarrow> {} | Inr c \<Rightarrow> elems c))))
               else map_of ([] :: perms) p)" by blast
  have pp: "permissions_processing ''black'' d req_resources [] [] = Inr final"
    using f by (simp add: permissions_processing_def)
  have mp: "match_permissions ''black'' d [(req_action, req_resources)] rbac = Inr final"
    using pp assms(2) by (simp add: match_permissions_def)
  have u: "\<And>p. (\<Union>r\<in>{r \<in> set req_resources. res_prefix r = p}.
                  case expand_resource d r of Inl e \<Rightarrow> {} | Inr c \<Rightarrow> elems c) =
              {x. \<exists>r\<in>set req_resources. res_prefix r = p \<and>
                    (\<exists>c. expand_resource d r = Inr c \<and> x \<in> elems c)}"
    by (auto split: sum.splits)
  have "\<forall>p. map_of final p =
               (if p \<notin> res_prefix ` set req_resources then None
                else if p = ''*:*'' then Some (PySet {''*''})
                else Some (PySet {x. \<exists>r\<in>set req_resources. res_prefix r = p \<and>
                                   (\<exists>c. expand_resource d r = Inr c \<and> x \<in> elems c)}))"
    using g unfolding u by simp
  with pp mp show "\<exists>final.
            permissions_processing ''black'' d req_resources [] [] = Inr final \<and>
            match_permissions ''black'' d [(req_action, req_resources)] rbac = Inr final \<and>
            (\<forall>p. map_of final p =
               (if p \<notin> res_prefix ` set req_resources then None
                else if p = ''*:*'' then Some (PySet {''*''})
                else Some (PySet {x. \<exists>r\<in>set req_resources. res_prefix r = p \<and>
                                   (\<exists>c. expand_resource d r = Inr c \<and> x \<in> elems c)})))"
    by blast
next
  show "match_permissions ''black'' d [(req_action, [''agent:id:*''])] rbac =
           Inr [(''agent:id'', PySet (get_agents_info d))]"
    using assms(2)
    by (simp add: match_permissions_def permissions_processing_def expand_resource_def
          res_prefix_def)
qed

theorem black_default_allow_witness:
  "match_permissions ''black'' example_directory [(''agent:read'', [''agent:id:*''])] Map.empty =
     Inr [(''agent:id'', PySet {''001'', ''002'', ''003''})] \<and>
   (\<exists>final. permissions_processing ''black'' example_directory [''*:*:*'', ''agent:id:001''] [] [] =
        Inr final \<and> map_of final ''*:*'' = Some (PySet {''*''}) \<and>
        map_of final ''agent:id'' = Some (PySet {''001''}))"
proof -
  have h: "\<forall>r\<in>set [''*:*:*'', ''agent:id:001'']. \<exists>n a v. split_colon r = [n, a, v]"
    by simp
  have n: "(Map.empty :: statements) ''agent:read'' = None"
    by simp
  show ?thesis
    using black_default_allow [OF h n, of example_directory]
    by (simp add: example_directory_def permissions_processing_def expand_resource_def
          res_prefix_def)
qed

subsection \<open>The parser's loop\<close>

lemma required_loop_append:
  "required_loop py_str kwargs (xs @ ys) st =
     (case required_loop py_str kwargs xs st of
        Inl e \<Rightarrow> Inl e
      | Inr st' \<Rightarrow> required_loop py_str kwargs ys st')"
  by (induction xs arbitrary: st) (auto split: sum.splits)

lemma required_step_4015:
  "required_step py_str kwargs st resource = Inl (WazuhError 4015 (Some name)) \<Longrightarrow>
     kwargs name = Some (ArgList [])"
  by (auto simp add: required_step_def split: prod.splits option.splits pyarg.splits if_splits)

lemma required_loop_4015:
  "required_loop py_str kwargs resources st = Inl (WazuhError 4015 (Some name)) \<Longrightarrow>
     kwargs name = Some (ArgList [])"
proof (induction resources arbitrary: st)
  case Nil
  then show ?case by simp
next
  case (Cons r rs)
  then show ?case
    by (cases "required_step py_str kwargs st r") (auto dest: required_step_4015)
qed

lemma required_step_extends:
  "required_step py_str kwargs (res_list, target_params, add_denied) resource =
     Inr (res_list', target_params', add_denied') \<Longrightarrow>
   (\<exists>xs. res_list' = res_list @ xs) \<and> (\<exists>ys. target_params' = target_params @ ys)"
  by (auto simp add: required_step_def split: option.splits pyarg.splits if_splits)

lemma required_loop_extends:
  "required_loop py_str kwargs resources (res_list, target_params, add_denied) =
     Inr (res_list', target_params', add_denied') \<Longrightarrow>
   (\<exists>xs. res_list' = res_list @ xs) \<and> (\<exists>ys. target_params' = target_params @ ys)"
proof (induction resources arbitrary: res_list target_params add_denied)
  case Nil
  then show ?case by simp
next
  case (Cons r rs)
  from Cons.prems obtain rl tp ad where
    s: "required_step py_str kwargs (res_list, target_params, add_denied) r = Inr (rl, tp, ad)" and
    l: "required_loop py_str kwargs rs (rl, tp, ad) = Inr (res_list', target_params', add_denied')"
    by (cases "required_step py_str kwargs (res_list, target_params, add_denied) r") auto
  from required_step_extends [OF s] Cons.IH [OF l] show ?case
    by auto
qed

lemma required_step_keeps_false:
  "required_step py_str kwargs (res_list, target_params, False) resource =
     Inr (res_list', target_params', add_denied') \<Longrightarrow>
   \<not> sets_add_denied kwargs resource \<Longrightarrow> add_denied' = False"
  by (auto simp add: required_step_def sets_add_denied_def
        split: option.splits pyarg.splits if_splits)

lemma required_loop_keeps_false:
  "required_loop py_str kwargs resources (res_list, target_params, False) =
     Inr (res_list', target_params', add_denied') \<Longrightarrow>
   \<forall>r\<in>set resources. \<not> sets_add_denied kwargs r \<Longrightarrow> add_denied' = False"
proof (induction resources arbitrary: res_list target_params)
  case Nil
  then show ?case by simp
next
  case (Cons r rs)
  from Cons.prems(1) obtain rl tp ad where
    s: "required_step py_str kwargs (res_list, target_params, False) r = Inr (rl, tp, ad)" and
    l: "required_loop py_str kwargs rs (rl, tp, ad) = Inr (res_list', target_params', add_denied')"
    by (cases "required_step py_str kwargs (res_list, target_params, False) r") auto
  have "ad = False"
    using required_step_keeps_false [OF s] Cons.prems(2) by simp
  with l Cons.IH Cons.prems(2) show ?case by simp
qed

lemma req_permissions_values:
  "\<forall>(a, rl)\<in>set al. rl = res_list \<Longrightarrow>
   \<forall>(a, rl)\<in>set (fold (\<lambda>action req_permissions. AList.update action res_list req_permissions)
                       actions al). rl = res_list"
proof (induction actions arbitrary: al)
  case Nil
  then show ?case by simp
next
  case (Cons a as)
  have "\<forall>(a, rl)\<in>set (AList.update a res_list al). rl = res_list"
    using Cons.prems by (induction al) auto
  from Cons.IH [OF this] show ?case by simp
qed

text \<open>
  C8, as the code has it. Take a template with placeholder \<^verbatim>\<open>{name}\<close>, reached without a
  failure at the templates before it. The parser fails with \<^verbatim>\<open>WazuhError(4015)\<close> on
  \<^verbatim>\<open>name\<close> exactly when \<^verbatim>\<open>name\<close> is bound to the empty list. When \<^verbatim>\<open>name\<close> is absent from
  the call arguments, the template's iteration appends \<^verbatim>\<open>prefix:*\<close> and \<^verbatim>\<open>name\<close> and sets
  \<^verbatim>\<open>add_denied\<close> to false; in what the parser returns, \<^verbatim>\<open>name\<close> and \<^verbatim>\<open>prefix:*\<close> stand at the
  template's positions, and \<^verbatim>\<open>add_denied\<close> is false provided no later template has its
  placeholder bound to \<^verbatim>\<open>None\<close> or \<^verbatim>\<open>'*'\<close>.
\<close>

theorem placeholder_parsing:
  assumes m: "resource_match resource = Some m" "group3 m = Some name"
      and b: "required_loop py_str kwargs before ([], [], True) = Inr (res_list, target_params, add_denied)"
  shows "(get_required_permissions py_str actions (before @ resource # after) kwargs =
            Inl (WazuhError 4015 (Some name)) \<longleftrightarrow> kwargs name = Some (ArgList [])) \<and>
         (kwargs name = None \<longrightarrow>
            required_step py_str kwargs (res_list, target_params, add_denied) resource =
              Inr (res_list @ [group1 m @ ''*''], target_params @ [name], False) \<and>
            (\<forall>tp rp ad.
               get_required_permissions py_str actions (before @ resource # after) kwargs =
                 Inr (tp, rp, ad) \<longrightarrow>
               tp ! length target_params = name \<and>
               (\<forall>(action, rl)\<in>set rp. rl ! length res_list = group1 m @ ''*'') \<and>
               ((\<forall>r\<in>set after. \<not> sets_add_denied kwargs r) \<longrightarrow> ad = False)))"
proof -
  let ?all = "before @ resource # after"
  have loop: "required_loop py_str kwargs ?all ([], [], True) =
      (case required_step py_str kwargs (res_list, target_params, add_denied) resource of
         Inl e \<Rightarrow> Inl e
       | Inr st' \<Rightarrow> required_loop py_str kwargs after st')"
    using b by (simp add: required_loop_append)
  have part1: "get_required_permissions py_str actions ?all kwargs = Inl (WazuhError 4015 (Some name))
          \<longleftrightarrow> kwargs name = Some (ArgList [])"
  proof
    assume "get_required_permissions py_str actions ?all kwargs = Inl (WazuhError 4015 (Some name))"
    then have "required_loop py_str kwargs ?all ([], [], True) = Inl (WazuhError 4015 (Some name))"
      by (auto simp add: get_required_permissions_def split: sum.splits)
    then show "kwargs name = Some (ArgList [])"
      by (rule required_loop_4015)
  next
    assume "kwargs name = Some (ArgList [])"
    then have "required_step py_str kwargs (res_list, target_params, add_denied) resource =
        Inl (WazuhError 4015 (Some name))"
      using m by (simp add: required_step_def)
    then show "get_required_permissions py_str actions ?all kwargs = Inl (WazuhError 4015 (Some name))"
      using loop by (simp add: get_required_permissions_def)
  qed
  have part2: "required_step py_str kwargs (res_list, target_params, add_denied) resource =
          Inr (res_list @ [group1 m @ ''*''], target_params @ [name], False)"
    if n: "kwargs name = None"
    using m n by (simp add: required_step_def)
  have part3: "tp ! length target_params = name \<and>
               (\<forall>(action, rl)\<in>set rp. rl ! length res_list = group1 m @ ''*'') \<and>
               ((\<forall>r\<in>set after. \<not> sets_add_denied kwargs r) \<longrightarrow> ad = False)"
    if n: "kwargs name = None"
      and g: "get_required_permissions py_str actions ?all kwargs = Inr (tp, rp, ad)"
    for tp rp ad
  proof -
    have loop': "required_loop py_str kwargs ?all ([], [], True) =
        required_loop py_str kwargs after (res_list @ [group1 m @ ''*''], target_params @ [name], False)"
      using loop part2 [OF n] by simp
    from g obtain rl where
      l: "required_loop py_str kwargs after
            (res_list @ [group1 m @ ''*''], target_params @ [name], False) = Inr (rl, tp, ad)" and
      rp: "rp = fold (\<lambda>action req_permissions. AList.update action rl req_permissions) actions []"
      unfolding get_required_permissions_def loop' by (auto split: sum.splits)
    from required_loop_extends [OF l] obtain xs ys where
      e: "rl = (res_list @ [group1 m @ ''*'']) @ xs" "tp = (target_params @ [name]) @ ys"
      by blast
    have t: "tp ! length target_params = name"
      using e(2) by (simp add: nth_append)
    have "rl ! length res_list = group1 m @ ''*''"
      using e(1) by (simp add: nth_append)
    moreover have "\<forall>(a, x)\<in>set rp. x = rl"
      unfolding rp by (rule req_permissions_values) simp
    ultimately have r: "\<forall>(action, rl)\<in>set rp. rl ! length res_list = group1 m @ ''*''"
      by auto
    have "(\<forall>r\<in>set after. \<not> sets_add_denied kwargs r) \<longrightarrow> ad = False"
      using required_loop_keeps_false [OF l] by blast
    with t r show ?thesis by blast
  qed
  from part1 part2 part3 show ?thesis by blast
qed


theorem placeholder_parsing_witness:
  "get_required_permissions (\<lambda>statements. ''{}'') [''agent:read''] [''agent:id:{agent_id}'', ''group:id:{group_id}'']
     [''group_id'' \<mapsto> ArgList [''default'']] =
     Inr ([''agent_id'', ''group_id''],
          [(''agent:read'', [''agent:id:*'', ''group:id:default''])], False) \<and>
   get_required_permissions (\<lambda>statements. ''{}'') [''agent:read''] [''agent:id:{agent_id}'', ''group:id:{group_id}'']
     [''agent_id'' \<mapsto> ArgList []] = Inl (WazuhError 4015 (Some ''agent_id''))"
proof -
  have m1: "resource_match ''agent:id:{agent_id}'' =
      Some (RMatch ''agent:id:'' ''{agent_id}'' (Some ''agent_id''))"
    by (simp add: resource_match_def lower_or_star_def word_char_def)
  have m2: "group3 (RMatch ''agent:id:'' ''{agent_id}'' (Some ''agent_id'')) = Some ''agent_id''"
    by simp
  have b: "required_loop py_str kwargs [] ([], [], True) = Inr ([], [], True)"
    for py_str kwargs
    by simp
  show ?thesis
    using
      placeholder_parsing [where py_str = "\<lambda>statements. ''{}''" and kwargs = "[''group_id'' \<mapsto> ArgList [''default'']]"
        and actions = "[''agent:read'']" and after = "[''group:id:{group_id}'']", OF m1 m2 b]
      placeholder_parsing [where py_str = "\<lambda>statements. ''{}''" and kwargs = "[''agent_id'' \<mapsto> ArgList []]"
        and actions = "[''agent:read'']" and after = "[''group:id:{group_id}'']", OF m1 m2 b]
    by (simp add: get_required_permissions_def required_step_def resource_match_def
          lower_or_star_def word_char_def)
qed

theorem placeholder_parsing_counterexample:
  "[''group_id'' \<mapsto> ArgNone] ''agent_id'' = None \<and>
   get_required_permissions (\<lambda>statements. ''{}'') [''agent:read''] [''agent:id:{agent_id}'', ''group:id:{group_id}'']
     [''group_id'' \<mapsto> ArgNone] =
     Inr ([''agent_id'', ''group_id''],
          [(''agent:read'', [''agent:id:*'', ''group:id:*''])], True)"
  by (simp add: get_required_permissions_def required_step_def resource_match_def
        lower_or_star_def word_char_def)

subsection \<open>The gate\<close>

text \<open>
  C2. The gate is to reject a call exactly when, for some declared target, the permitted
  set resolved for that target's own prefix is empty, and before the wrapped operation runs.
  The code takes \<^verbatim>\<open>allow[list(allow.keys())[index]]\<close>, the set under the \<open>index\<close>-th key of
  the resolver's dictionary, for the target at position \<open>index\<close>. Two calls show the
  difference. With two templates under \<^verbatim>\<open>agent:id\<close> the dictionary has the one key
  \<^verbatim>\<open>agent:id\<close> with the permitted set \<^verbatim>\<open>{001, 002}\<close>, position 1 has no key, and the call is
  rejected with \<^verbatim>\<open>WazuhError(4000)\<close> although no permitted set is empty. With the templates
  \<^verbatim>\<open>agent:id:{agent_id}\<close> and \<^verbatim>\<open>group:id:{group_id}\<close> and the caller's statement on
  \<^verbatim>\<open>group:id\<close> coming first, the keys are in the order \<^verbatim>\<open>group:id\<close>, \<^verbatim>\<open>agent:id\<close>, and the
  wrapped operation receives the permitted groups as \<^verbatim>\<open>agent_id\<close> and the permitted agents
  as \<^verbatim>\<open>group_id\<close>.
\<close>

theorem gate_reads_keys_by_position:
  "match_permissions ''white'' example_directory
     [(''agent:read'', [''agent:id:001'', ''agent:id:002''])]
     [''agent:read'' \<mapsto> [(''agent:id:*'', ''allow'')]] =
     Inr [(''agent:id'', PySet {''001'', ''002''})] \<and>
   wrapper (\<lambda>statements. ''{}'') [''agent:read'']
     [''agent:id:{agent_id}'', ''agent:id:{other_id}''] None False
     (\<lambda>kwargs called. (Inr (kwargs ''agent_id'', kwargs ''other_id''), True))
     ''white'' example_directory
     [''agent_id'' \<mapsto> ArgList [''001''], ''other_id'' \<mapsto> ArgList [''002''],
      ''rbac'' \<mapsto> ArgDict [''agent:read'' \<mapsto> [(''agent:id:*'', ''allow'')]]]
     False =
     (Inl (WazuhError 4000 None), False) \<and>
   wrapper (\<lambda>statements. ''{}'') [''agent:read'']
     [''agent:id:{agent_id}'', ''group:id:{group_id}''] None False
     (\<lambda>kwargs called. (Inr (kwargs ''agent_id'', kwargs ''group_id''), True))
     ''white'' example_directory
     [''agent_id'' \<mapsto> ArgList [''001''], ''group_id'' \<mapsto> ArgList [''default''],
      ''rbac'' \<mapsto> ArgDict [''agent:read'' \<mapsto>
         [(''group:id:default'', ''allow''), (''agent:id:001'', ''allow'')]]]
     False =
     (Inr (Some (Allowed (PySet {''default''})), Some (Allowed (PySet {''001''}))), True)"
  by (auto simp add: wrapper_def get_required_permissions_def required_step_def
        resource_match_def lower_or_star_def word_char_def match_permissions_def
        permissions_processing_def statement_step_def expand_resource_def
        use_expanded_resource_def res_prefix_def res_value_def len_is_zero_def
        example_directory_def)

subsection \<open>One statement\<close>




subsection \<open>The sanitizing loop\<close>








subsection \<open>No value outside the required ones\<close>















subsection \<open>A statement that denies everything\<close>












end
